theory Spec2Isabelle
  imports Main
begin

section \<open>JavaScript strings\<close>

text \<open>
  A JavaScript string is a sequence of UTF-16 code units. The model uses \<^typ>\<open>string\<close>,
  whose characters are 8-bit, read as the code units \<open>0x00\<close> to \<open>0xFF\<close> (ASCII and the
  Latin-1 supplement). On that range the functions below compute what the JavaScript
  built-ins compute.
\<close>

definition is_space :: "char \<Rightarrow> bool" where
  \<comment> \<open>The white space and line terminator code units below \<open>0x100\<close>: what \<open>\s\<close> matches
      and what \<open>trim\<close> strips.\<close>
  "is_space c = (c \<in> set [CHR 0x09, CHR 0x0A, CHR 0x0B, CHR 0x0C, CHR 0x0D, CHR 0x20, CHR 0xA0])"

definition trim :: "string \<Rightarrow> string" where
  "trim s = rev (dropWhile is_space (rev (dropWhile is_space s)))"

fun startsWith :: "string \<Rightarrow> string \<Rightarrow> bool" where
  \<comment> \<open>\<open>s.startsWith(p)\<close>, with the string searched as second argument.\<close>
  "startsWith [] s = True"
| "startsWith (p # ps) [] = False"
| "startsWith (p # ps) (c # cs) = (p = c \<and> startsWith ps cs)"

fun includes_str :: "string \<Rightarrow> string \<Rightarrow> bool" where
  \<comment> \<open>\<open>s.includes(p)\<close>, with the string searched as second argument.\<close>
  "includes_str p [] = (p = [])"
| "includes_str p (c # cs) = (startsWith p (c # cs) \<or> includes_str p cs)"

definition lower_char :: "char \<Rightarrow> char" where
  \<comment> \<open>A to Z and the Latin-1 capitals \<open>0xC0\<close> to \<open>0xDE\<close> (without the multiplication
      sign \<open>0xD7\<close>) move up by 32.\<close>
  "lower_char c =
     (let n = of_char c :: nat
      in if (65 \<le> n \<and> n \<le> 90) \<or> (192 \<le> n \<and> n \<le> 222 \<and> n \<noteq> 215)
         then char_of (n + 32) else c)"

definition toLowerCase :: "string \<Rightarrow> string" where
  "toLowerCase s = map lower_char s"

definition upper_char :: "char \<Rightarrow> string" where
  \<comment> \<open>a to z and the Latin-1 small letters move down by 32; the sharp s becomes SS.
      The micro sign \<open>0xB5\<close> and y with diaeresis \<open>0xFF\<close>, whose capitals lie beyond
      \<open>0xFF\<close>, are left as they are.\<close>
  "upper_char c =
     (let n = of_char c :: nat
      in if (97 \<le> n \<and> n \<le> 122) \<or> (224 \<le> n \<and> n \<le> 254 \<and> n \<noteq> 247)
         then [char_of (n - 32)]
         else if n = 223 then ''SS'' else [c])"

definition toUpperCase :: "string \<Rightarrow> string" where
  "toUpperCase s = concat (map upper_char s)"

fun split_on :: "char \<Rightarrow> string \<Rightarrow> string list" where
  \<comment> \<open>\<open>s.split(c)\<close> for a one-character separator: never the empty list.\<close>
  "split_on sep [] = [[]]"
| "split_on sep (c # cs) =
     (case split_on sep cs of
        [] \<Rightarrow> (if c = sep then [[], []] else [[c]])
      | p # ps \<Rightarrow> (if c = sep then [] # p # ps else (c # p) # ps))"

definition slice_last :: "nat \<Rightarrow> 'a list \<Rightarrow> 'a list" where
  \<comment> \<open>\<open>xs.slice(-n)\<close> for \<open>n > 0\<close>: the last \<open>n\<close> elements, all of them when there are
      fewer.\<close>
  "slice_last n xs = drop (length xs - n) xs"

definition digit_char :: "nat \<Rightarrow> char" where
  "digit_char d = ''0123456789'' ! (d mod 10)"

fun decimal :: "nat \<Rightarrow> string" where
  \<comment> \<open>A non-negative integer as a string: its decimal digits.\<close>
  "decimal n = (if n < 10 then [digit_char n] else decimal (n div 10) @ [digit_char (n mod 10)])"

declare decimal.simps [simp del]

section \<open>Regular expressions\<close>

text \<open>
  The regular expressions of the source are sequences of literals, quantified character
  classes and capture groups, without anchors or look-around. An expression is a list of
  items, matched by backtracking in the order ECMAScript prescribes: a greedy quantifier
  tries the longest run first, a lazy one the shortest.
\<close>

datatype cclass =
    AnyChar                 \<comment> \<open>\<open>[\s\S]\<close>\<close>
  | Space                   \<comment> \<open>\<open>\s\<close>\<close>
  | Except string           \<comment> \<open>\<open>[^...]\<close>\<close>
  | ExceptOrSpace string    \<comment> \<open>\<open>[^...\s]\<close>\<close>

fun in_class :: "cclass \<Rightarrow> char \<Rightarrow> bool" where
  "in_class AnyChar c = True"
| "in_class Space c = is_space c"
| "in_class (Except cs) c = (c \<notin> set cs)"
| "in_class (ExceptOrSpace cs) c = (c \<notin> set cs \<and> \<not> is_space c)"

datatype item =
    Lit string        \<comment> \<open>literal text\<close>
  | Star cclass       \<comment> \<open>\<open>C*\<close>\<close>
  | Plus cclass       \<comment> \<open>\<open>C+\<close>\<close>
  | LazyStar cclass   \<comment> \<open>\<open>C*?\<close>\<close>
  | GroupOpen         \<comment> \<open>\<open>(\<close>\<close>
  | GroupClose        \<comment> \<open>\<open>)\<close>\<close>

type_synonym regex = "item list"

fun first_some :: "('a \<Rightarrow> 'b option) \<Rightarrow> 'a list \<Rightarrow> 'b option" where
  "first_some f [] = None"
| "first_some f (x # xs) = (case f x of Some y \<Rightarrow> Some y | None \<Rightarrow> first_some f xs)"

fun run :: "regex \<Rightarrow> string list \<Rightarrow> string list \<Rightarrow> string \<Rightarrow> (string list \<times> string) option" where
  \<comment> \<open>\<open>run r opens caps s\<close> matches \<open>r\<close> at the start of \<open>s\<close>. \<open>opens\<close> holds the input
      as it was at each group still open, \<open>caps\<close> the captures of the groups closed so
      far. The result is the captures and the input left after the match.\<close>
  "run [] opens caps s = Some (caps, s)"
| "run (Lit l # r) opens caps s =
     (if startsWith l s then run r opens caps (drop (length l) s) else None)"
| "run (Star c # r) opens caps s =
     first_some (\<lambda>k. run r opens caps (drop k s))
       (rev [0 ..< Suc (length (takeWhile (in_class c) s))])"
| "run (Plus c # r) opens caps s =
     first_some (\<lambda>k. run r opens caps (drop k s))
       (rev [1 ..< Suc (length (takeWhile (in_class c) s))])"
| "run (LazyStar c # r) opens caps s =
     first_some (\<lambda>k. run r opens caps (drop k s))
       [0 ..< Suc (length (takeWhile (in_class c) s))]"
| "run (GroupOpen # r) opens caps s = run r (s # opens) caps s"
| "run (GroupClose # r) [] caps s = None"
| "run (GroupClose # r) (opn # opens) caps s =
     run r opens (caps @ [take (length opn - length s) opn]) s"

record rmatch =
  m_index :: nat          \<comment> \<open>\<open>match.index\<close>\<close>
  m_length :: nat         \<comment> \<open>\<open>match[0].length\<close>\<close>
  m_groups :: "string list"   \<comment> \<open>\<open>match[1]\<close>, \<open>match[2]\<close>, ...\<close>

fun search :: "regex \<Rightarrow> nat \<Rightarrow> string \<Rightarrow> rmatch option" where
  \<comment> \<open>The leftmost match in \<open>s\<close>, which is the input from position \<open>i\<close> on.\<close>
  "search r i s =
     (case run r [] [] s of
        Some (caps, rest) \<Rightarrow>
          Some \<lparr>m_index = i, m_length = length s - length rest, m_groups = caps\<rparr>
      | None \<Rightarrow> (case s of [] \<Rightarrow> None | c # cs \<Rightarrow> search r (Suc i) cs))"

definition rx_exec :: "regex \<Rightarrow> string \<Rightarrow> nat \<Rightarrow> rmatch option" where
  \<comment> \<open>\<open>regex.exec(s)\<close> with \<open>regex.lastIndex = i\<close>; also \<open>s.match(regex)\<close> for a regex
      without the \<open>g\<close> flag, with \<open>i = 0\<close>.\<close>
  "rx_exec r s i = (if length s < i then None else search r i (drop i s))"

declare search.simps [simp del]

lemma search_length: "search r i s = Some m \<Longrightarrow> m_length m \<le> length s"
proof (induction r i s rule: search.induct)
  case (1 r i s)
  show ?case
  proof (cases "run r [] [] s")
    case None
    with "1.prems" obtain c cs where s: "s = c # cs" and "search r (Suc i) cs = Some m"
      by (auto simp: search.simps [of r i s] split: list.splits)
    with "1.IH" None show ?thesis by fastforce
  next
    case (Some a)
    with "1.prems" show ?thesis
      by (auto simp: search.simps [of r i s] split: prod.splits)
  qed
qed

function replace_all :: "regex \<Rightarrow> string \<Rightarrow> string \<Rightarrow> string" where
  \<comment> \<open>\<open>s.replace(r, rep)\<close> for a regex \<open>r\<close> with the \<open>g\<close> flag and a replacement text
      without \<open>$\<close>. After an empty match the search moves on by one character.\<close>
  "replace_all r rep s =
     (case search r 0 s of
        None \<Rightarrow> s
      | Some m \<Rightarrow>
          take (m_index m) s @ rep @
          (if m_length m = 0
           then (case drop (m_index m) s of [] \<Rightarrow> [] | c # cs \<Rightarrow> c # replace_all r rep cs)
           else replace_all r rep (drop (m_index m + m_length m) s)))"
  by pat_completeness auto
termination
proof (relation "measure (\<lambda>(r, rep, s). length s)")
  show "wf (measure (\<lambda>(r, rep, s). length s))" by simp
next
  fix rep s cs :: string and rx :: regex and m :: rmatch and c :: char
  assume "drop (m_index m) s = c # cs"
  then have "length (c # cs) \<le> length s"
    by (metis length_drop diff_le_self)
  then show "((rx, rep, cs), (rx, rep, s)) \<in> measure (\<lambda>(r, rep, s). length s)" by simp
next
  fix r :: regex and rep s :: string and m :: rmatch
  assume "search r 0 s = Some m" and "m_length m \<noteq> 0"
  then have "s \<noteq> []" using search_length by fastforce
  with \<open>m_length m \<noteq> 0\<close>
  show "((r, rep, drop (m_index m + m_length m) s), (r, rep, s)) \<in> measure (\<lambda>(r, rep, s). length s)"
    by simp
qed

declare replace_all.simps [simp del]

section \<open>Messages and durable storage\<close>

text \<open>
  A message of the chat area (\<open>interface Message\<close>). The field \<open>type\<close> is one of the
  strings \<open>'user'\<close> and \<open>'assistant'\<close>; it stays a string in the model because the
  sidebar reads messages back from JSON and compares the field with string literals.
\<close>

record message =
  msg_id :: nat
  msg_type :: string
  content :: string
  timestamp :: string

text \<open>An entry of the sidebar's session index.\<close>

record session =
  session_id :: string
  title :: string
  session_messages :: "message list"

text \<open>
  \<open>localStorage\<close> holds three keys of the conversation store. Values are kept as the
  data that \<open>JSON.stringify\<close> writes and \<open>JSON.parse\<close> reads back. A write can be
  rejected by the storage layer; which writes are rejected is a parameter of the model,
  a function of the stored state and the payload. The field \<open>attempts\<close> records every
  call of \<open>setItem\<close>, accepted or not, in order.
\<close>

datatype payload =
    HistoryPayload "message list"      \<comment> \<open>key \<open>datasoph-chat-history\<close>\<close>
  | SessionsPayload "session list"     \<comment> \<open>key \<open>datasoph-chat-sessions\<close>\<close>
  | SessionIdPayload string            \<comment> \<open>key \<open>current-session-id\<close>\<close>

record local_storage =
  chat_history :: "message list option"
  chat_sessions :: "session list option"
  current_session_id :: "string option"
  attempts :: "payload list"

type_synonym quota = "local_storage \<Rightarrow> payload \<Rightarrow> bool"

fun store_payload :: "payload \<Rightarrow> local_storage \<Rightarrow> local_storage" where
  "store_payload (HistoryPayload ms) st = st\<lparr>chat_history := Some ms\<rparr>"
| "store_payload (SessionsPayload ss) st = st\<lparr>chat_sessions := Some ss\<rparr>"
| "store_payload (SessionIdPayload i) st = st\<lparr>current_session_id := Some i\<rparr>"

definition setItem :: "quota \<Rightarrow> payload \<Rightarrow> local_storage \<Rightarrow> bool \<times> local_storage" where
  \<comment> \<open>The first component is \<open>False\<close> when \<open>setItem\<close> throws.\<close>
  "setItem q p st =
     (let st' = st\<lparr>attempts := attempts st @ [p]\<rparr>
      in if q st p then (True, store_payload p st') else (False, st'))"

definition png_payload_regex :: regex where
  \<comment> \<open>\<open>/data:image\/png;base64,[^"]+/g\<close>\<close>
  \<open>png_payload_regex = [Lit ''data:image/png;base64,'', Plus (Except ''"'')]\<close>

definition any_payload_regex :: regex where
  \<comment> \<open>\<open>/data:image\/[^;]+;base64,[^"]+/g\<close>\<close>
  \<open>any_payload_regex =
     [Lit ''data:image/'', Plus (Except '';''), Lit '';base64,'', Plus (Except ''"'')]\<close>

definition filter_content :: "string \<Rightarrow> string" where
  \<comment> \<open>The \<open>content\<close> of a filtered message in the chat area's save effect.\<close>
  "filter_content c =
     (if includes_str ''data:image/png;base64'' c
      then replace_all png_payload_regex ''[IMAGE_REMOVED_FOR_STORAGE]'' c
      else c)"

definition filteredMessages :: "message list \<Rightarrow> message list" where
  "filteredMessages ms = map (\<lambda>msg. msg\<lparr>content := filter_content (content msg)\<rparr>) ms"

definition save_messages :: "quota \<Rightarrow> message list \<Rightarrow> local_storage \<Rightarrow> local_storage" where
  \<comment> \<open>The effect that runs whenever \<open>messages\<close> changes. The \<open>catch\<close> branch removes
      the key.\<close>
  "save_messages q ms st =
     (case setItem q (HistoryPayload (slice_last 10 (filteredMessages ms))) st of
        (True, st') \<Rightarrow> st'
      | (False, st') \<Rightarrow> st'\<lparr>chat_history := None\<rparr>)"

section \<open>The chat area and its request lifecycle\<close>

datatype typing_stage = Thinking | Analyzing | Processing | Generating

datatype timer =
    StageTimer typing_stage   \<comment> \<open>\<open>setTimeout(() => setTypingStage(...), ...)\<close>\<close>
  | FallbackTimer             \<comment> \<open>the delayed fallback message of the \<open>catch\<close> branch\<close>

record request =
  req_controller :: nat
  req_message :: string
  req_file_id :: "string option"

text \<open>
  The state of \<open>ClaudeChatArea\<close>. An \<open>AbortController\<close> is an object; the model names
  each one by a number, \<open>next_controller\<close> is the next fresh one, and \<open>aborted\<close> holds
  those whose signal is aborted. \<open>requests\<close> are the network exchanges started and not
  yet settled, \<open>timers\<close> the pending timeouts.
\<close>

record chat_area =
  messages :: "message list"
  inputValue :: string
  isTyping :: bool
  typingStage :: typing_stage
  currentAbortController :: "nat option"
  hasMessages :: bool
  aborted :: "nat set"
  next_controller :: nat
  requests :: "request list"
  timers :: "timer list"
  storage :: local_storage

definition setMessages :: "quota \<Rightarrow> (message list \<Rightarrow> message list) \<Rightarrow> chat_area \<Rightarrow> chat_area" where
  \<comment> \<open>\<open>setMessages(prev => f(prev))\<close> together with the two effects that depend on
      \<open>messages\<close>: \<open>setHasMessages\<close> and the save to storage.\<close>
  "setMessages q f s =
     (let ms = f (messages s)
      in s\<lparr>messages := ms, hasMessages := (ms \<noteq> []),
            storage := save_messages q ms (storage s)\<rparr>)"

definition abort :: "nat \<Rightarrow> chat_area \<Rightarrow> chat_area" where
  "abort c s = s\<lparr>aborted := insert c (aborted s)\<rparr>"

definition handleSendMessage ::
  "quota \<Rightarrow> nat \<Rightarrow> string \<Rightarrow> string \<Rightarrow> string option \<Rightarrow> chat_area \<Rightarrow> chat_area" where
  \<comment> \<open>\<open>handleSendMessage(message, fileId)\<close> up to its \<open>await\<close>. \<open>now\<close> is \<open>Date.now()\<close>
      and \<open>ts\<close> the formatted time of day.\<close>
  "handleSendMessage q now ts message fileId s =
     (case (isTyping s, currentAbortController s) of
        (True, Some c) \<Rightarrow>
          (abort c s)\<lparr>isTyping := False, currentAbortController := None\<rparr>
      | _ \<Rightarrow>
          if trim message = [] \<or> isTyping s then s
          else
            let userMessage = \<lparr>msg_id = now, msg_type = ''user'', content = trim message,
                               timestamp = ts\<rparr>;
                s1 = setMessages q (\<lambda>prev. prev @ [userMessage]) s;
                c = next_controller s1
            in s1\<lparr>inputValue := [], isTyping := True,
                  currentAbortController := Some c, next_controller := Suc c,
                  typingStage := Thinking,
                  timers := timers s1 @
                    [StageTimer Analyzing, StageTimer Processing, StageTimer Generating],
                  requests := requests s1 @
                    [\<lparr>req_controller = c, req_message = trim message,
                      req_file_id = fileId\<rparr>]\<rparr>)"

datatype outcome = Response string | Failure

definition fallback_text :: string where
  "fallback_text = ''I apologize, but I'' @ [CHR 0x27] @ ''m having trouble processing your request right now. Please try again or upload your file again.''"

definition settle :: "quota \<Rightarrow> nat \<Rightarrow> string \<Rightarrow> nat \<Rightarrow> outcome \<Rightarrow> chat_area \<Rightarrow> chat_area" where
  \<comment> \<open>The rest of \<open>handleSendMessage\<close> after its \<open>await\<close>, for the request whose
      controller is \<open>c\<close>: the \<open>try\<close> body on a response, the \<open>catch\<close> body on a
      failure, then \<open>finally\<close>. It runs only for an exchange that is pending.\<close>
  "settle q now ts c out s =
     (if c \<notin> req_controller ` set (requests s) then s
      else
        let s0 = s\<lparr>requests := filter (\<lambda>r. req_controller r \<noteq> c) (requests s)\<rparr>
        in if c \<in> aborted s0 then s0
           else
             let s1 = (case out of
                         Response text \<Rightarrow>
                           setMessages q (\<lambda>prev. prev @
                             [\<lparr>msg_id = now + 1, msg_type = ''assistant'', content = text,
                               timestamp = ts\<rparr>]) s0
                       | Failure \<Rightarrow> s0\<lparr>timers := timers s0 @ [FallbackTimer]\<rparr>)
             in s1\<lparr>isTyping := False, currentAbortController := None\<rparr>)"

definition fire_timer :: "quota \<Rightarrow> nat \<Rightarrow> string \<Rightarrow> nat \<Rightarrow> chat_area \<Rightarrow> chat_area" where
  \<comment> \<open>The pending timeout number \<open>i\<close> fires.\<close>
  "fire_timer q now ts i s =
     (if length (timers s) \<le> i then s
      else
        let s0 = s\<lparr>timers := take i (timers s) @ drop (Suc i) (timers s)\<rparr>
        in case timers s ! i of
             StageTimer st \<Rightarrow> s0\<lparr>typingStage := st\<rparr>
           | FallbackTimer \<Rightarrow>
               setMessages q (\<lambda>prev. prev @
                 [\<lparr>msg_id = now + 1, msg_type = ''assistant'', content = fallback_text,
                   timestamp = ts\<rparr>]) s0)"

definition handleNewChat :: "quota \<Rightarrow> chat_area \<Rightarrow> chat_area" where
  \<comment> \<open>\<open>window.triggerNewChat\<close>\<close>
  "handleNewChat q s =
     (let s1 = (setMessages q (\<lambda>prev. []) s)\<lparr>inputValue := [], isTyping := False,
                 hasMessages := False\<rparr>
      in case currentAbortController s of
           Some c \<Rightarrow> (abort c s1)\<lparr>currentAbortController := None\<rparr>
         | None \<Rightarrow> s1)"

definition loadChatHistory :: "quota \<Rightarrow> chat_area \<Rightarrow> chat_area" where
  \<comment> \<open>Runs on a \<open>storage\<close> event for the history key and on \<open>chatSwitch\<close>.\<close>
  "loadChatHistory q s =
     (case chat_history (storage s) of
        Some parsedMessages \<Rightarrow> setMessages q (\<lambda>prev. parsedMessages) s
      | None \<Rightarrow> setMessages q (\<lambda>prev. []) s)"

definition addMessage :: "quota \<Rightarrow> message \<Rightarrow> chat_area \<Rightarrow> chat_area" where
  "addMessage q m s = setMessages q (\<lambda>prev. prev @ [m]) s"

datatype event =
    Send nat string string "string option"   \<comment> \<open>the send/stop button, with the clock\<close>
  | Settle nat string nat outcome            \<comment> \<open>a network exchange settles, with the clock\<close>
  | Fire nat string nat                      \<comment> \<open>a timeout fires, with the clock\<close>
  | NewChat
  | Reload
  | Add message
  | External local_storage                   \<comment> \<open>another context or component rewrites storage\<close>

fun step :: "quota \<Rightarrow> event \<Rightarrow> chat_area \<Rightarrow> chat_area" where
  "step q (Send now ts message fileId) s = handleSendMessage q now ts message fileId s"
| "step q (Settle now ts c out) s = settle q now ts c out s"
| "step q (Fire now ts i) s = fire_timer q now ts i s"
| "step q NewChat s = handleNewChat q s"
| "step q Reload s = loadChatHistory q s"
| "step q (Add m) s = addMessage q m s"
| "step q (External st) s = s\<lparr>storage := st\<rparr>"

fun run_events :: "quota \<Rightarrow> event list \<Rightarrow> chat_area \<Rightarrow> chat_area" where
  "run_events q [] s = s"
| "run_events q (e # es) s = run_events q es (step q e s)"

section \<open>The sidebar and its session index\<close>

datatype js_error = QuotaExceededError

text \<open>
  A handler either returns or throws; in both cases the state is what the handler made
  of it up to that point.
\<close>

datatype 's completion = Returns 's | Throws js_error 's

fun state_after :: "'s completion \<Rightarrow> 's" where
  "state_after (Returns s) = s"
| "state_after (Throws e s) = s"

text \<open>
  The state of \<open>ClaudeSidebar\<close>, together with the \<open>localStorage\<close> it shares with the
  chat area.
\<close>

record sidebar =
  chatHistory :: "session list"
  openMenuId :: "string option"
  renamingChatId :: "string option"
  renameValue :: string
  sb_storage :: local_storage

definition session_title :: "string \<Rightarrow> string" where
  \<comment> \<open>\<open>content.substring(0, 30) + (content.length > 30 ? '...' : '')\<close>\<close>
  "session_title c = take 30 c @ (if 30 < length c then ''...'' else [])"

definition clean_message :: "message \<Rightarrow> message" where
  \<comment> \<open>One step of \<open>cleanMessages\<close>: the test is \<open>msg.type === 'ai' && msg.content\<close>.\<close>
  "clean_message msg =
     (if msg_type msg = ''ai'' \<and> content msg \<noteq> []
      then msg\<lparr>content := replace_all any_payload_regex ''[IMAGE_REMOVED]'' (content msg)\<rparr>
      else msg)"

fun findIndex :: "('a \<Rightarrow> bool) \<Rightarrow> 'a list \<Rightarrow> nat option" where
  \<comment> \<open>\<open>None\<close> stands for the result \<open>-1\<close>.\<close>
  "findIndex P [] = None"
| "findIndex P (x # xs) =
     (if P x then Some 0 else map_option Suc (findIndex P xs))"

definition setChatHistory :: "(sidebar \<Rightarrow> sidebar completion) \<Rightarrow> sidebar \<Rightarrow> sidebar completion" where
  \<comment> \<open>\<open>setChatHistory(prev => ...)\<close> with an updater that writes to storage. React runs
      the updater when the update is dispatched; when it throws there, the error is set
      aside and the updater runs once more as the component renders, and what it throws
      then surfaces, outside any \<open>try\<close> of the caller. What a throwing run wrote or
      tried to write stays. An updater that returns runs once.\<close>
  "setChatHistory updater sb =
     (case updater sb of
        Returns sb' \<Rightarrow> Returns sb'
      | Throws e sb1 \<Rightarrow> updater sb1)"

definition update_sessions ::
  "quota \<Rightarrow> string \<Rightarrow> string \<Rightarrow> message list \<Rightarrow> sidebar \<Rightarrow> sidebar completion" where
  \<comment> \<open>One run of the updater passed to \<open>setChatHistory\<close> in \<open>checkForNewMessages\<close>.
      The second \<open>setItem\<close> stands in the \<open>catch\<close> block, outside any \<open>try\<close>.\<close>
  "update_sessions q sessionId ttl msgs sb =
     (let prev = chatHistory sb;
          cleanMessages = map clean_message msgs;
          entry = \<lparr>session_id = sessionId, title = ttl, session_messages = cleanMessages\<rparr>;
          newHistory = (case findIndex (\<lambda>chat. session_id chat = sessionId) prev of
                          Some existingIndex \<Rightarrow> prev[existingIndex := entry]
                        | None \<Rightarrow> entry # take 4 prev)
      in case setItem q (SessionsPayload newHistory) (sb_storage sb) of
           (True, st1) \<Rightarrow> Returns (sb\<lparr>chatHistory := newHistory, sb_storage := st1\<rparr>)
         | (False, st1) \<Rightarrow>
             (let currentOnly = [entry]
              in case setItem q (SessionsPayload currentOnly) st1 of
                   (True, st2) \<Rightarrow> Returns (sb\<lparr>chatHistory := currentOnly, sb_storage := st2\<rparr>)
                 | (False, st2) \<Rightarrow> Throws QuotaExceededError (sb\<lparr>sb_storage := st2\<rparr>)))"

definition checkForNewMessages :: "quota \<Rightarrow> nat \<Rightarrow> sidebar \<Rightarrow> sidebar completion" where
  \<comment> \<open>Runs on mount and every two seconds. \<open>now\<close> is \<open>Date.now()\<close>. The result is how
      the state update it requests completes; the \<open>catch\<close> around \<open>setChatHistory\<close>
      does not see what the updater throws.\<close>
  "checkForNewMessages q now sb =
     (case chat_history (sb_storage sb) of
        None \<Rightarrow> Returns sb
      | Some msgs \<Rightarrow>
          if msgs = [] then Returns sb
          else
            let sessionId = (case current_session_id (sb_storage sb) of
                               None \<Rightarrow> ''session-'' @ decimal now
                             | Some i \<Rightarrow> if i = [] then ''session-'' @ decimal now else i)
            in case find (\<lambda>msg. msg_type msg = ''user'') msgs of
                 None \<Rightarrow> Returns sb
               | Some firstUserMessage \<Rightarrow>
                   setChatHistory
                     (update_sessions q sessionId (session_title (content firstUserMessage)) msgs)
                     sb)"

definition handleRenameStart :: "session \<Rightarrow> sidebar \<Rightarrow> sidebar" where
  "handleRenameStart chat sb =
     sb\<lparr>renamingChatId := Some (session_id chat), renameValue := title chat, openMenuId := None\<rparr>"

definition rename_updater :: "quota \<Rightarrow> string \<Rightarrow> string \<Rightarrow> sidebar \<Rightarrow> sidebar completion" where
  \<comment> \<open>One run of the updater of \<open>handleRenameSubmit\<close>; its write is not guarded.\<close>
  "rename_updater q chatId newTitle sb =
     (let updated = map (\<lambda>chat. if session_id chat = chatId
                                  then chat\<lparr>title := newTitle\<rparr> else chat)
                      (chatHistory sb)
      in case setItem q (SessionsPayload updated) (sb_storage sb) of
           (True, st) \<Rightarrow> Returns (sb\<lparr>chatHistory := updated, sb_storage := st\<rparr>)
         | (False, st) \<Rightarrow> Throws QuotaExceededError (sb\<lparr>sb_storage := st\<rparr>))"

definition handleRenameSubmit :: "quota \<Rightarrow> string \<Rightarrow> sidebar \<Rightarrow> sidebar completion" where
  \<comment> \<open>When the updater throws, the two resets that follow it are lost with the render.\<close>
  "handleRenameSubmit q chatId sb =
     (if trim (renameValue sb) \<noteq> []
      then
        case setChatHistory (rename_updater q chatId (trim (renameValue sb))) sb of
          Returns sb' \<Rightarrow> Returns (sb'\<lparr>renamingChatId := None, renameValue := []\<rparr>)
        | Throws e sb' \<Rightarrow> Throws e sb'
      else Returns (sb\<lparr>renamingChatId := None, renameValue := []\<rparr>))"

definition handleChatSelect :: "quota \<Rightarrow> session \<Rightarrow> sidebar \<Rightarrow> sidebar completion" where
  \<comment> \<open>Writes the selected session's messages as the active history, then its id.\<close>
  "handleChatSelect q chat sb =
     (case setItem q (HistoryPayload (session_messages chat)) (sb_storage sb) of
        (False, st) \<Rightarrow> Throws QuotaExceededError (sb\<lparr>sb_storage := st\<rparr>)
      | (True, st) \<Rightarrow>
          (case setItem q (SessionIdPayload (session_id chat)) st of
             (False, st') \<Rightarrow> Throws QuotaExceededError (sb\<lparr>sb_storage := st'\<rparr>)
           | (True, st') \<Rightarrow> Returns (sb\<lparr>sb_storage := st'\<rparr>)))"

section \<open>The chat history hook\<close>

text \<open>
  \<open>useChatHistory\<close> keeps its own list of chats, whose messages carry \<open>isUser\<close>. Times
  (\<open>new Date()\<close>) are numbers handed in by the caller.
\<close>

record hook_message =
  hm_content :: string
  isUser :: bool

record chat =
  chat_id :: string
  chat_title :: string
  chat_messages :: "hook_message list"
  createdAt :: nat
  lastUpdated :: nat

definition addMessageToChat :: "nat \<Rightarrow> string \<Rightarrow> hook_message \<Rightarrow> chat list \<Rightarrow> chat list" where
  "addMessageToChat now chatId msg chats =
     map (\<lambda>c. if chat_id c = chatId
               then
                 let ttl = (if chat_title c = ''New Chat'' \<and> isUser msg
                            then (if 50 < length (hm_content msg)
                                  then take 50 (hm_content msg) @ ''...''
                                  else hm_content msg)
                            else chat_title c)
                 in c\<lparr>chat_title := ttl, chat_messages := chat_messages c @ [msg],
                       lastUpdated := now\<rparr>
               else c) chats"

definition renameChat :: "nat \<Rightarrow> string \<Rightarrow> string \<Rightarrow> chat list \<Rightarrow> chat list" where
  "renameChat now chatId newTitle chats =
     (if trim newTitle = [] then chats
      else map (\<lambda>c. if chat_id c = chatId
                     then c\<lparr>chat_title := trim newTitle, lastUpdated := now\<rparr>
                     else c) chats)"

section \<open>The upload classifier\<close>

text \<open>
  Property lookup on an object literal finds the object's own keys and, failing that, the
  properties every object inherits from \<open>Object.prototype\<close>. Both \<open>key in obj\<close> and
  \<open>obj[key]\<close> go through this lookup; an inherited property is a function or an object,
  never one of the literal's own values.
\<close>

datatype 'a lookup = Own 'a | Inherited | Missing

definition object_prototype_keys :: "string list" where
  "object_prototype_keys =
     [''constructor'', ''__defineGetter__'', ''__defineSetter__'', ''hasOwnProperty'',
      ''__lookupGetter__'', ''__lookupSetter__'', ''isPrototypeOf'', ''propertyIsEnumerable'',
      ''toString'', ''valueOf'', ''__proto__'', ''toLocaleString'']"

definition get_prop :: "(string \<times> 'a) list \<Rightarrow> string \<Rightarrow> 'a lookup" where
  "get_prop obj k =
     (case map_of obj k of
        Some v \<Rightarrow> Own v
      | None \<Rightarrow> if k \<in> set object_prototype_keys then Inherited else Missing)"

record format_entry =
  fmt_ext :: "string option"   \<comment> \<open>\<open>ext\<close>; the entries of \<open>by_extension\<close> have none\<close>
  fmt_name :: string           \<comment> \<open>\<open>name\<close>\<close>
  priority :: nat

definition by_mime :: "string \<Rightarrow> string \<Rightarrow> nat \<Rightarrow> format_entry" where
  "by_mime e n p = \<lparr>fmt_ext = Some e, fmt_name = n, priority = p\<rparr>"

definition by_ext :: "string \<Rightarrow> nat \<Rightarrow> format_entry" where
  "by_ext n p = \<lparr>fmt_ext = None, fmt_name = n, priority = p\<rparr>"

definition MB :: nat where
  "MB = 1024 * 1024"

definition FILE_SIZE_LIMITS :: "(string \<times> nat) list" where
  "FILE_SIZE_LIMITS =
     [(''text/csv'', 100 * MB),
      (''application/json'', 50 * MB),
      (''text/plain'', 10 * MB),
      (''text/markdown'', 10 * MB),
      (''application/vnd.ms-excel'', 200 * MB),
      (''application/vnd.openxmlformats-officedocument.spreadsheetml.sheet'', 200 * MB),
      (''application/pdf'', 50 * MB),
      (''application/vnd.openxmlformats-officedocument.wordprocessingml.document'', 50 * MB),
      (''image/png'', 50 * MB),
      (''image/jpeg'', 50 * MB),
      (''image/svg+xml'', 10 * MB),
      (''default'', 50 * MB)]"

definition structured_data :: "(string \<times> format_entry) list" where
  "structured_data =
     [(''text/csv'', by_mime ''.csv'' ''CSV Files'' 1),
      (''application/vnd.ms-excel'', by_mime ''.xls'' ''Excel Files (Legacy)'' 1),
      (''application/vnd.openxmlformats-officedocument.spreadsheetml.sheet'',
         by_mime ''.xlsx'' ''Excel Files'' 1),
      (''application/json'', by_mime ''.json'' ''JSON Data'' 1),
      (''text/plain'', by_mime ''.txt'' ''Text Files'' 1)]"

definition documents :: "(string \<times> format_entry) list" where
  "documents =
     [(''application/pdf'', by_mime ''.pdf'' ''PDF Documents'' 1),
      (''application/vnd.openxmlformats-officedocument.wordprocessingml.document'',
         by_mime ''.docx'' ''Word Documents'' 2),
      (''text/html'', by_mime ''.html'' ''HTML Documents'' 2),
      (''text/markdown'', by_mime ''.md'' ''Markdown Files'' 2)]"

definition images :: "(string \<times> format_entry) list" where
  "images =
     [(''image/png'', by_mime ''.png'' ''PNG Images (with OCR)'' 2),
      (''image/jpeg'', by_mime ''.jpg'' ''JPEG Images (with OCR)'' 2),
      (''image/tiff'', by_mime ''.tiff'' ''TIFF Images (with OCR)'' 2),
      (''image/bmp'', by_mime ''.bmp'' ''Bitmap Images (with OCR)'' 2),
      (''image/webp'', by_mime ''.webp'' ''WebP Images (with OCR)'' 2),
      (''image/svg+xml'', by_mime ''.svg'' ''SVG Images'' 2)]"

definition by_extension :: "(string \<times> format_entry) list" where
  "by_extension =
     [(''.jsonl'', by_ext ''JSON Lines'' 1),
      (''.parquet'', by_ext ''Parquet Files'' 1),
      (''.ipynb'', by_ext ''Jupyter Notebooks'' 1),
      (''.sql'', by_ext ''SQL Scripts'' 1),
      (''.xml'', by_ext ''XML Files'' 2),
      (''.yaml'', by_ext ''YAML Files'' 2),
      (''.yml'', by_ext ''YAML Files'' 2),
      (''.sqlite'', by_ext ''SQLite Database'' 2),
      (''.db'', by_ext ''Database Files'' 2),
      (''.h5'', by_ext ''HDF5 Files'' 2),
      (''.hdf5'', by_ext ''HDF5 Files'' 2),
      (''.sav'', by_ext ''SPSS Files'' 3),
      (''.dta'', by_ext ''Stata Files'' 3),
      (''.sas7bdat'', by_ext ''SAS Files'' 3),
      (''.rda'', by_ext ''R Data Files'' 3),
      (''.rds'', by_ext ''R Serialized Data'' 3),
      (''.avro'', by_ext ''Apache Avro'' 3),
      (''.orc'', by_ext ''Apache ORC'' 3),
      (''.feather'', by_ext ''Apache Arrow'' 3),
      (''.pkl'', by_ext ''Pickle Files'' 3),
      (''.pickle'', by_ext ''Pickle Files'' 3),
      (''.joblib'', by_ext ''Joblib Models'' 3),
      (''.onnx'', by_ext ''ONNX Models'' 3),
      (''.tiff'', by_ext ''TIFF Images (with OCR)'' 2),
      (''.tif'', by_ext ''TIFF Images (with OCR)'' 2),
      (''.bmp'', by_ext ''Bitmap Images (with OCR)'' 2),
      (''.webp'', by_ext ''WebP Images (with OCR)'' 2),
      (''.heic'', by_ext ''HEIC Images (iPhone photos with OCR)'' 2),
      (''.wav'', by_ext ''Audio Files'' 3),
      (''.mp3'', by_ext ''Audio Files'' 3),
      (''.mp4'', by_ext ''Video Files'' 3)]"

definition SUPPORTED_FORMATS :: "(string \<times> (string \<times> format_entry) list) list" where
  "SUPPORTED_FORMATS =
     [(''structured_data'', structured_data),
      (''documents'', documents),
      (''images'', images),
      (''by_extension'', by_extension)]"

definition ALLOWED_MIME_TYPES :: "string list" where
  \<comment> \<open>\<open>getAllSupportedTypes().mimeTypes\<close>\<close>
  "ALLOWED_MIME_TYPES =
     remdups (concat (map (\<lambda>(category, formats). map fst formats)
       (filter (\<lambda>(category, formats). category \<noteq> ''by_extension'') SUPPORTED_FORMATS)))"

definition ALLOWED_EXTENSIONS :: "string list" where
  \<comment> \<open>\<open>getAllSupportedTypes().extensions\<close>\<close>
  "ALLOWED_EXTENSIONS =
     remdups (concat (map (\<lambda>(category, formats). map fst formats)
       (filter (\<lambda>(category, formats). category = ''by_extension'') SUPPORTED_FORMATS)))"

record upload =
  file_name :: string   \<comment> \<open>\<open>file.name\<close>\<close>
  file_type :: string   \<comment> \<open>\<open>file.type\<close>, the MIME type, empty when unknown\<close>
  file_size :: nat      \<comment> \<open>\<open>file.size\<close> in bytes\<close>

definition extension_of :: "upload \<Rightarrow> string" where
  \<comment> \<open>\<open>'.' + file.name.split('.').pop()?.toLowerCase()\<close>\<close>
  "extension_of f =
     (case rev (split_on (CHR ''.'') (file_name f)) of
        [] \<Rightarrow> ''.undefined''
      | l # _ \<Rightarrow> ''.'' @ toLowerCase l)"

fun lookup_by_mime ::
  "(string \<times> (string \<times> format_entry) list) list \<Rightarrow> string \<Rightarrow> format_entry lookup" where
  \<comment> \<open>The loop over \<open>Object.entries(SUPPORTED_FORMATS)\<close>.\<close>
  "lookup_by_mime [] t = Missing"
| "lookup_by_mime ((category, formats) # rest) t =
     (if category = ''by_extension'' then lookup_by_mime rest t
      else case get_prop formats t of
             Missing \<Rightarrow> lookup_by_mime rest t
           | found \<Rightarrow> found)"

definition getFileInfo :: "upload \<Rightarrow> format_entry lookup" where
  \<comment> \<open>\<open>Missing\<close> stands for the result \<open>null\<close>.\<close>
  "getFileInfo f =
     (case lookup_by_mime SUPPORTED_FORMATS (file_type f) of
        Missing \<Rightarrow> get_prop by_extension (extension_of f)
      | found \<Rightarrow> found)"

text \<open>
  \<open>(bytes / (1024 * 1024)).toFixed(digits)\<close>. A file size is an integer below \<open>2^53\<close>,
  so the quotient is exact, and \<open>toFixed\<close> rounds the exact value to the nearest
  multiple of \<open>10^-digits\<close>, upwards from the middle.
\<close>

definition two_digits :: "nat \<Rightarrow> string" where
  "two_digits n = [digit_char (n div 10 mod 10), digit_char (n mod 10)]"

definition megabytes_fixed2 :: "nat \<Rightarrow> string" where
  "megabytes_fixed2 bytes =
     (let n = (bytes * 200 + MB) div (2 * MB)
      in decimal (n div 100) @ ''.'' @ two_digits (n mod 100))"

definition megabytes_fixed0 :: "nat \<Rightarrow> string" where
  "megabytes_fixed0 bytes = decimal ((bytes * 2 + MB) div (2 * MB))"

text \<open>
  \<open>validateFile\<close> returns \<open>null\<close> or one of two messages. The model returns the kind
  of failure with the values the message interpolates; \<open>message_of\<close> is the text. The
  decorative symbols of the source text (emoji and bullets, beyond the 8-bit range) and
  the blank after each are left out of the text.
\<close>

datatype validation_failure =
    UnsupportedFormat
  | FileTooLarge string string string   \<comment> \<open>label, current size in MB, allowed size in MB\<close>

definition unlines :: "string list \<Rightarrow> string" where
  "unlines ls = (case ls of [] \<Rightarrow> [] | l # rest \<Rightarrow> l @ concat (map (\<lambda>x. CHR 0x0A # x) rest))"

fun message_of :: "validation_failure \<Rightarrow> string" where
  "message_of UnsupportedFormat = unlines
     [''File type not supported. '',
      '''',
      ''**Supported formats:**'',
      ''**Data:** CSV, Excel (.xlsx, .xls), JSON, Parquet, SQL'',
      ''**Documents:** PDF, Word (.docx), HTML, Markdown, Jupyter Notebooks'',
      ''**Images with OCR:** PNG, JPEG, TIFF, BMP, WebP, HEIC (text/table extraction)'',
      ''**Statistical:** SPSS (.sav), Stata (.dta), R data (.rda, .rds)'',
      ''**Databases:** SQLite, HDF5'',
      ''**Models:** Pickle, Joblib, ONNX'',
      '''',
      ''Convert your file to one of these formats for the best analysis experience.'']"
| "message_of (FileTooLarge label sizeMB limitMB) = unlines
     [''File size exceeds limit for '' @ label @ '' files.'',
      ''      '',
      ''**Current size:** '' @ sizeMB @ ''MB'',
      ''**Maximum allowed:** '' @ limitMB @ ''MB'',
      '''',
      ''**Tips:**'',
      ''For large datasets, try converting to Parquet format'',
      ''For text files, consider splitting into smaller chunks'',
      ''For images, compress or resize before uploading'']"

datatype size_limit = Bytes nat | NotANumber

definition sizeLimit :: "upload \<Rightarrow> size_limit" where
  \<comment> \<open>\<open>FILE_SIZE_LIMITS[file.type] || FILE_SIZE_LIMITS['default']\<close>. An inherited
      property is truthy and not a number.\<close>
  "sizeLimit f =
     (case get_prop FILE_SIZE_LIMITS (file_type f) of
        Own n \<Rightarrow> if n = 0 then Bytes (50 * MB) else Bytes n
      | Inherited \<Rightarrow> NotANumber
      | Missing \<Rightarrow> Bytes (50 * MB))"

definition validateFile :: "upload \<Rightarrow> validation_failure option" where
  \<comment> \<open>\<open>None\<close> stands for \<open>null\<close>: the file is accepted. A comparison with a limit
      that is not a number is false. The label is \<open>fileInfo?.name || extension.toUpperCase()\<close>;
      with an inherited \<open>fileInfo\<close> the limit is inherited too and no label is computed.\<close>
  "validateFile f =
     (let extension = extension_of f;
          fileInfo = getFileInfo f
      in if fileInfo = Missing \<and> file_type f \<notin> set ALLOWED_MIME_TYPES
            \<and> extension \<notin> set ALLOWED_EXTENSIONS
         then Some UnsupportedFormat
         else case sizeLimit f of
                NotANumber \<Rightarrow> None
              | Bytes limit \<Rightarrow>
                  if limit < file_size f
                  then Some (FileTooLarge
                         (case fileInfo of
                            Own e \<Rightarrow> if fmt_name e = [] then toUpperCase extension else fmt_name e
                          | _ \<Rightarrow> toUpperCase extension)
                         (megabytes_fixed2 (file_size f))
                         (megabytes_fixed0 limit))
                  else None)"

definition mime_registry :: "(string \<times> format_entry) list" where
  \<comment> \<open>The entries keyed by MIME type, in the order in which \<open>getFileInfo\<close> visits the
      categories.\<close>
  "mime_registry = structured_data @ documents @ images"

section \<open>The content parser\<close>

text \<open>
  A match of an expression that begins with a literal lies within the input and is at
  least as long as the literal; the loop over the wrappers of a message terminates for
  that reason.
\<close>

lemma first_some_SomeD: "first_some f xs = Some y \<Longrightarrow> \<exists>x \<in> set xs. f x = Some y"
  by (induction xs) (auto split: option.splits)

lemma run_length: "run r opens caps s = Some (caps', rest) \<Longrightarrow> length rest \<le> length s"
proof (induction r opens caps s arbitrary: caps' rest rule: run.induct)
  case (1 opens caps s)
  from "1.prems" show ?case by simp
next
  case (2 l r opens caps s)
  from "2.prems" have sw: "startsWith l s"
    and k: "run r opens caps (drop (length l) s) = Some (caps', rest)"
    by (auto split: if_splits)
  have "length rest \<le> length (drop (length l) s)" by (rule "2.IH" [OF sw k])
  then show ?case by simp
next
  case (3 c r opens caps s)
  from "3.prems" have "first_some (\<lambda>k. run r opens caps (drop k s))
      (rev [0 ..< Suc (length (takeWhile (in_class c) s))]) = Some (caps', rest)"
    by (simp only: run.simps)
  from first_some_SomeD [OF this] obtain k where k: "run r opens caps (drop k s) = Some (caps', rest)"
    by blast
  have "length rest \<le> length (drop k s)" by (rule "3.IH" [OF k])
  then show ?case by simp
next
  case (4 c r opens caps s)
  from "4.prems" have "first_some (\<lambda>k. run r opens caps (drop k s))
      (rev [1 ..< Suc (length (takeWhile (in_class c) s))]) = Some (caps', rest)"
    by (simp only: run.simps)
  from first_some_SomeD [OF this] obtain k where k: "run r opens caps (drop k s) = Some (caps', rest)"
    by blast
  have "length rest \<le> length (drop k s)" by (rule "4.IH" [OF k])
  then show ?case by simp
next
  case (5 c r opens caps s)
  from "5.prems" have "first_some (\<lambda>k. run r opens caps (drop k s))
      [0 ..< Suc (length (takeWhile (in_class c) s))] = Some (caps', rest)"
    by (simp only: run.simps)
  from first_some_SomeD [OF this] obtain k where k: "run r opens caps (drop k s) = Some (caps', rest)"
    by blast
  have "length rest \<le> length (drop k s)" by (rule "5.IH" [OF k])
  then show ?case by simp
next
  case (6 r opens caps s)
  from "6.prems" have "run r (s # opens) caps s = Some (caps', rest)" by simp
  then show ?case by (rule "6.IH")
next
  case (7 r caps s)
  from "7.prems" show ?case by simp
next
  case (8 r opn opens caps s)
  from "8.prems"
  have "run r opens (caps @ [take (length opn - length s) opn]) s = Some (caps', rest)" by simp
  then show ?case by (rule "8.IH")
qed


lemma startsWith_length: "startsWith l s \<Longrightarrow> length l \<le> length s"
  by (induction l s rule: startsWith.induct) auto

lemma run_literal_progress:
  assumes "run (Lit l # r) opens caps s = Some (caps', rest)"
  shows "length rest + length l \<le> length s"
proof -
  from assms have sw: "startsWith l s"
    and k: "run r opens caps (drop (length l) s) = Some (caps', rest)"
    by (auto split: if_splits)
  from run_length [OF k] have "length rest \<le> length (drop (length l) s)" .
  with startsWith_length [OF sw] show ?thesis by simp
qed

lemma search_bounds:
  assumes "search (Lit l # r) i s = Some m"
  shows "i \<le> m_index m \<and> length l \<le> m_length m \<and> m_index m + m_length m \<le> i + length s"
  using assms
proof (induction "Lit l # r" i s rule: search.induct)
  case (1 i s)
  show ?case
  proof (cases "run (Lit l # r) [] [] s")
    case None
    with "1.prems" obtain c cs where s: "s = c # cs" and "search (Lit l # r) (Suc i) cs = Some m"
      by (auto simp: search.simps [of _ i s] split: list.splits)
    with "1.hyps" [OF None s] have "Suc i \<le> m_index m \<and> length l \<le> m_length m
        \<and> m_index m + m_length m \<le> Suc i + length cs" by blast
    with s show ?thesis by simp
  next
    case (Some a)
    obtain caps rest where a: "a = (caps, rest)" by (cases a)
    from Some a have "length rest + length l \<le> length s" by (simp only: run_literal_progress)
    with "1.prems" Some a show ?thesis
      by (auto simp: search.simps [of _ i s])
  qed
qed

lemma rx_exec_bounds:
  assumes "rx_exec (Lit l # r) s i = Some m"
  shows "i \<le> m_index m \<and> length l \<le> m_length m \<and> m_index m + m_length m \<le> length s"
proof -
  from assms have le: "i \<le> length s" and "search (Lit l # r) i (drop i s) = Some m"
    by (auto simp: rx_exec_def split: if_splits)
  from search_bounds [OF this(2)] le show ?thesis by simp
qed


text \<open>
  The parts that \<open>parseHTMLContent\<close> returns. A text part stands for the element whose
  children are \<open>parseTextContent(text)\<close>; the line-by-line rendering of the text is
  not part of the model.
\<close>

datatype block =
    TextBlock string      \<comment> \<open>the text handed to \<open>parseTextContent\<close>\<close>
  | ImageBlock string     \<comment> \<open>a bare image: \<open>src\<close>\<close>
  | ChartBlock string string "string option" string string
      \<comment> \<open>link \<open>href\<close>, link \<open>download\<close>, title if any, image \<open>src\<close>, image \<open>alt\<close>\<close>

definition wrapper_signature :: string where
  \<open>wrapper_signature = ''<div style="position: relative''\<close>

definition png_signature :: string where
  "png_signature = ''data:image/png;base64''"

definition base64Regex :: regex where
  \<comment> \<open>\<open>/(data:image\/png;base64,[^"'\s]+)/g\<close>\<close>
  "base64Regex =
     [GroupOpen, Lit ''data:image/png;base64,'', Plus (ExceptOrSpace [CHR 0x22, CHR 0x27]),
      GroupClose]"

definition htmlDivRegex :: regex where
  \<comment> \<open>\<open>/<div[^>]*style="[^"]*position:\s*relative[^"]*"[^>]*>([\s\S]*?)<\/div>/g\<close>\<close>
  \<open>htmlDivRegex =
     [Lit ''<div'', Star (Except ''>''), Lit ''style="'', Star (Except ''"''),
      Lit ''position:'', Star Space, Lit ''relative'', Star (Except ''"''), Lit ''"'',
      Star (Except ''>''), Lit ''>'', GroupOpen, LazyStar AnyChar, GroupClose, Lit ''</div>'']\<close>

definition downloadLinkRegex :: regex where
  \<comment> \<open>\<open>/<a href="([^"]+)"[^>]*download="([^"]+)"[^>]*>([^<]+)<\/a>/\<close>\<close>
  \<open>downloadLinkRegex =
     [Lit ''<a href="'', GroupOpen, Plus (Except ''"''), GroupClose, Lit ''"'',
      Star (Except ''>''), Lit ''download="'', GroupOpen, Plus (Except ''"''), GroupClose,
      Lit ''"'', Star (Except ''>''), Lit ''>'', GroupOpen, Plus (Except ''<''), GroupClose,
      Lit ''</a>'']\<close>

definition imageRegex :: regex where
  \<comment> \<open>\<open>/<img src="([^"]+)"[^>]*alt="([^"]+)"[^>]*\/>/\<close>\<close>
  \<open>imageRegex =
     [Lit ''<img src="'', GroupOpen, Plus (Except ''"''), GroupClose, Lit ''"'',
      Star (Except ''>''), Lit ''alt="'', GroupOpen, Plus (Except ''"''), GroupClose,
      Lit ''"'', Star (Except ''>''), Lit ''/>'']\<close>

definition titleRegex :: regex where
  \<comment> \<open>\<open>/<h3[^>]*>([^<]+)<\/h3>/\<close>\<close>
  "titleRegex =
     [Lit ''<h3'', Star (Except ''>''), Lit ''>'', GroupOpen, Plus (Except ''<''), GroupClose,
      Lit ''</h3>'']"

definition group :: "rmatch \<Rightarrow> nat \<Rightarrow> string" where
  \<comment> \<open>\<open>match[i]\<close> for \<open>i \<ge> 1\<close>. Every group of the expressions above takes part in
      every match, so the index is in range.\<close>
  "group m i = (if 0 < i \<and> i \<le> length (m_groups m) then m_groups m ! (i - 1) else [])"

definition chart_of :: "string \<Rightarrow> block list" where
  \<comment> \<open>What the loop pushes for one wrapper, from its inner markup \<open>divContent\<close>.\<close>
  "chart_of divContent =
     (let downloadLinkMatch = rx_exec downloadLinkRegex divContent 0;
          imageMatch = rx_exec imageRegex divContent 0;
          titleMatch = rx_exec titleRegex divContent 0
      in case (imageMatch, downloadLinkMatch) of
           (Some im, Some dl) \<Rightarrow>
             [ChartBlock (group dl 1) (group dl 2) (map_option (\<lambda>t. group t 1) titleMatch)
                (group im 1) (group im 2)]
         | _ \<Rightarrow> [])"

definition text_part :: "string \<Rightarrow> block list" where
  \<comment> \<open>\<open>if (text.trim()) parts.push(...)\<close>\<close>
  "text_part text = (if trim text = [] then [] else [TextBlock text])"

function html_parts :: "string \<Rightarrow> nat \<Rightarrow> block list" where
  \<comment> \<open>The \<open>while\<close> loop over the matches of \<open>htmlDivRegex\<close> from \<open>lastIndex\<close> on,
      followed by the remaining reply: the parts pushed from there on.\<close>
  "html_parts reply lastIndex =
     (case rx_exec htmlDivRegex reply lastIndex of
        None \<Rightarrow>
          (if lastIndex < length reply then text_part (drop lastIndex reply) else [])
      | Some m \<Rightarrow>
          (if lastIndex < m_index m
           then text_part (take (m_index m - lastIndex) (drop lastIndex reply)) else [])
          @ chart_of (group m 1)
          @ html_parts reply (m_index m + m_length m))"
  by pat_completeness auto
termination
proof (relation "measure (\<lambda>(reply, lastIndex). length reply - lastIndex)")
  show "wf (measure (\<lambda>(reply, lastIndex). length reply - lastIndex))" by simp
next
  fix reply lastIndex m
  assume "rx_exec htmlDivRegex reply lastIndex = Some m"
  then have "lastIndex \<le> m_index m \<and> length ''<div'' \<le> m_length m
      \<and> m_index m + m_length m \<le> length reply"
    unfolding htmlDivRegex_def by (rule rx_exec_bounds)
  then show "((reply, m_index m + m_length m), (reply, lastIndex))
      \<in> measure (\<lambda>(reply, lastIndex). length reply - lastIndex)"
    by auto
qed

declare html_parts.simps [simp del]

function split_by :: "regex \<Rightarrow> string \<Rightarrow> string list" where
  \<comment> \<open>\<open>s.split(r)\<close> for an expression that matches no empty string: the pieces
      between the matches, each match replaced by its captures.\<close>
  "split_by r s =
     (case search r 0 s of
        None \<Rightarrow> [s]
      | Some m \<Rightarrow>
          if m_length m = 0 then [s]
          else take (m_index m) s # m_groups m @ split_by r (drop (m_index m + m_length m) s))"
  by pat_completeness auto
termination
proof (relation "measure (\<lambda>(r, s). length s)")
  show "wf (measure (\<lambda>(r, s). length s))" by simp
next
  fix r :: regex and s m
  assume "search r 0 s = Some m" and "m_length m \<noteq> 0"
  then have "s \<noteq> []" using search_length by fastforce
  with \<open>m_length m \<noteq> 0\<close>
  show "((r, drop (m_index m + m_length m) s), (r, s)) \<in> measure (\<lambda>(r, s). length s)"
    by simp
qed

declare split_by.simps [simp del]

definition parseHTMLContent :: "string \<Rightarrow> block list" where
  "parseHTMLContent reply =
     (if includes_str png_signature reply \<and> \<not> includes_str wrapper_signature reply
      then concat (map (\<lambda>part. if startsWith ''data:image/png;base64,'' part
                                 then [ImageBlock part] else text_part part)
                     (split_by base64Regex reply))
      else let parts = html_parts reply 0
           in if parts \<noteq> [] then parts else [TextBlock reply])"

text \<open>
  \<open>AIMessage\<close> hands the reply to \<open>parseHTMLContent\<close> when it contains the wrapper
  signature or a PNG payload; otherwise it renders code blocks and text, which the model
  does not follow further.
\<close>

datatype rendering = HtmlParts "block list" | CodeOrText string

definition AIMessage :: "string \<Rightarrow> rendering" where
  "AIMessage reply =
     (if includes_str wrapper_signature reply \<or> includes_str png_signature reply
      then HtmlParts (parseHTMLContent reply)
      else CodeOrText reply)"

text \<open>
  The result of the parser stated from the wrappers. \<open>wrappers\<close> are the successive
  matches of the wrapper expression, as \<open>matchAll\<close> lists them. For each of them,
  \<open>expected_parts\<close> has the prose since the previous one, when not blank, then its image
  block, which exists when the markup inside the wrapper holds an image tag and a
  download link; after the last wrapper comes the remaining prose, when not blank.
\<close>

function wrappers :: "string \<Rightarrow> nat \<Rightarrow> rmatch list" where
  "wrappers reply lastIndex =
     (case rx_exec htmlDivRegex reply lastIndex of
        None \<Rightarrow> []
      | Some m \<Rightarrow> m # wrappers reply (m_index m + m_length m))"
  by pat_completeness auto
termination
proof (relation "measure (\<lambda>(reply, lastIndex). length reply - lastIndex)")
  show "wf (measure (\<lambda>(reply, lastIndex). length reply - lastIndex))" by simp
next
  fix reply lastIndex m
  assume "rx_exec htmlDivRegex reply lastIndex = Some m"
  then have "lastIndex \<le> m_index m \<and> length ''<div'' \<le> m_length m
      \<and> m_index m + m_length m \<le> length reply"
    unfolding htmlDivRegex_def by (rule rx_exec_bounds)
  then show "((reply, m_index m + m_length m), (reply, lastIndex))
      \<in> measure (\<lambda>(reply, lastIndex). length reply - lastIndex)"
    by auto
qed

declare wrappers.simps [simp del]

definition image_block :: "string \<Rightarrow> block list" where
  "image_block body =
     (case rx_exec imageRegex body 0 of
        None \<Rightarrow> []
      | Some im \<Rightarrow>
          (case rx_exec downloadLinkRegex body 0 of
             None \<Rightarrow> []
           | Some dl \<Rightarrow>
               [ChartBlock (group dl 1) (group dl 2)
                  (case rx_exec titleRegex body 0 of None \<Rightarrow> None | Some t \<Rightarrow> Some (group t 1))
                  (group im 1) (group im 2)]))"

fun expected_parts :: "string \<Rightarrow> nat \<Rightarrow> rmatch list \<Rightarrow> block list" where
  "expected_parts reply pos [] = text_part (drop pos reply)"
| "expected_parts reply pos (m # ms) =
     text_part (take (m_index m - pos) (drop pos reply))
     @ image_block (group m 1)
     @ expected_parts reply (m_index m + m_length m) ms"

fun is_image_block :: "block \<Rightarrow> bool" where
  "is_image_block (ChartBlock href download ttl src alt) = True"
| "is_image_block b = False"

definition has_image_and_link :: "rmatch \<Rightarrow> bool" where
  "has_image_and_link m =
     (rx_exec imageRegex (group m 1) 0 \<noteq> None \<and> rx_exec downloadLinkRegex (group m 1) 0 \<noteq> None)"

section \<open>Concrete inputs\<close>

text \<open>States, files and replies at which the properties below are evaluated.\<close>

definition empty_storage :: local_storage where
  "empty_storage =
     \<lparr>chat_history = None, chat_sessions = None, current_session_id = None, attempts = []\<rparr>"

definition idle_chat_area :: chat_area where
  "idle_chat_area =
     \<lparr>messages = [], inputValue = [], isTyping = False, typingStage = Thinking,
      currentAbortController = None, hasMessages = False, aborted = {},
      next_controller = 0, requests = [], timers = [], storage = empty_storage\<rparr>"

definition unlimited :: quota where
  \<comment> \<open>A storage layer that accepts every write.\<close>
  "unlimited st p = True"


definition awaiting_reply :: chat_area where
  \<comment> \<open>The idle chat area after the user sent \<open>hello\<close>: controller 0 is active.\<close>
  "awaiting_reply = handleSendMessage unlimited 10 ''10:00 AM'' ''hello'' None idle_chat_area"

definition numbered :: "nat \<Rightarrow> message" where
  "numbered n =
     \<lparr>msg_id = n, msg_type = ''user'', content = ''question'', timestamp = ''10:00 AM''\<rparr>"

definition hello_message :: message where
  "hello_message = \<lparr>msg_id = 10, msg_type = ''user'', content = ''hello'', timestamp = ''10:00 AM''\<rparr>"

definition jpeg_reply :: string where
  \<open>jpeg_reply = ''<img src="data:image/jpeg;base64,/9j/4AAQSkZJRg==" alt="chart"/>''\<close>

definition jpeg_message :: message where
  "jpeg_message = \<lparr>msg_id = 31, msg_type = ''assistant'', content = jpeg_reply, timestamp = ''10:01 AM''\<rparr>"

definition replied :: chat_area where
  \<comment> \<open>The reply to \<open>hello\<close> arrived: an image tag with an inline JPEG payload.\<close>
  "replied = settle unlimited 30 ''10:01 AM'' 0 (Response jpeg_reply) awaiting_reply"

definition fresh_sidebar :: "local_storage \<Rightarrow> sidebar" where
  "fresh_sidebar st = \<lparr>chatHistory = [], openMenuId = None, renamingChatId = None, renameValue = [],
     sb_storage = st\<lparr>current_session_id := Some ''session-1''\<rparr>\<rparr>"

definition polled_sidebar :: sidebar where
  \<comment> \<open>The sidebar after its first poll of that storage.\<close>
  "polled_sidebar = state_after (checkForNewMessages unlimited 50 (fresh_sidebar (storage replied)))"

definition renamed_sidebar :: sidebar where
  \<comment> \<open>The user then renamed the session to \<open>Sales review\<close>.\<close>
  "renamed_sidebar = state_after (handleRenameSubmit unlimited ''session-1''
      ((handleRenameStart (hd (chatHistory polled_sidebar)) polled_sidebar)\<lparr>renameValue := ''Sales review''\<rparr>))"






definition pickle_upper :: upload where
  "pickle_upper = \<lparr>file_name = ''model.v2.PKL'', file_type = [], file_size = 10\<rparr>"

definition csv_named_pkl :: upload where
  "csv_named_pkl = \<lparr>file_name = ''table.pkl'', file_type = ''text/csv'', file_size = 10\<rparr>"

definition installer :: upload where
  "installer = \<lparr>file_name = ''setup.exe'', file_type = ''application/x-msdownload'', file_size = 10\<rparr>"

definition three_wrappers :: string where
  \<open>three_wrappers = ''A<div style="position: relative"><a href="/a.png" download="a.png">Get</a><img src="/a.png" alt="First"/></div>B<div style="position: relative"><img src="/b.png" alt="Second"/></div>C<div style="position: relative"><a href="/c.png" download="c.png">Get</a><h3>Third</h3><img src="/c.png" alt="Third chart"/></div>D''\<close>

definition chart_without_link :: string where
  \<open>chart_without_link = ''<div style="position: relative"><h3>Sales</h3><img src="/f/s.png" alt="Sales chart"/></div>''\<close>


section \<open>Properties of the request lifecycle\<close>

lemma trim_empty_iff: "trim s = [] \<longleftrightarrow> (\<forall>c \<in> set s. is_space c)"
proof
  assume "trim s = []"
  then have all: "\<forall>x \<in> set (dropWhile is_space s). is_space x"
    by (simp add: trim_def dropWhile_eq_Nil_conv)
  have "dropWhile is_space s = []"
  proof (rule ccontr)
    assume ne: "dropWhile is_space s \<noteq> []"
    then have "\<not> is_space (hd (dropWhile is_space s))" by (rule hd_dropWhile)
    moreover from ne have "hd (dropWhile is_space s) \<in> set (dropWhile is_space s)" by simp
    ultimately show False using all by blast
  qed
  then show "\<forall>c \<in> set s. is_space c" by (simp add: dropWhile_eq_Nil_conv)
next
  assume "\<forall>c \<in> set s. is_space c"
  then show "trim s = []"
    by (auto simp: trim_def dropWhile_eq_Nil_conv dest: set_dropWhileD)
qed

lemma step_keeps_aborted: "c \<in> aborted s \<Longrightarrow> c \<in> aborted (step q e s)"
  by (cases e)
     (auto simp: handleSendMessage_def settle_def fire_timer_def handleNewChat_def
        loadChatHistory_def addMessage_def setMessages_def abort_def Let_def
      split: option.splits bool.splits outcome.splits timer.splits)

lemma run_keeps_aborted: "c \<in> aborted s \<Longrightarrow> c \<in> aborted (run_events q es s)"
  by (induction es arbitrary: s) (auto simp: step_keeps_aborted)

lemma settle_of_aborted:
  assumes "c \<in> aborted s"
  shows "messages (settle q now ts c out s) = messages s"
    and "storage (settle q now ts c out s) = storage s"
    and "isTyping (settle q now ts c out s) = isTyping s"
    and "timers (settle q now ts c out s) = timers s"
  using assms by (simp_all add: settle_def Let_def)

lemma stop_aborts:
  "isTyping s \<Longrightarrow> currentAbortController s = Some c \<Longrightarrow>
   c \<in> aborted (handleSendMessage q now ts message fileId s)"
  by (simp add: handleSendMessage_def abort_def)

lemma new_chat_aborts:
  "currentAbortController s = Some c \<Longrightarrow> c \<in> aborted (handleNewChat q s)"
  by (simp add: handleNewChat_def abort_def Let_def)

text \<open>
  C1. A request is in flight with controller \<open>c\<close>. It is cancelled, by the stop action of
  the send button or by the new-chat trigger. Whatever happens afterwards, when the
  network exchange of \<open>c\<close> settles, with a response or with a failure, the message list
  and the durable storage are what they were just before the settlement; no assistant
  message is appended and no fallback message is scheduled.
\<close>

theorem canceled_settlement_is_discarded:
  assumes "isTyping s" and "currentAbortController s = Some c"
  shows "(let s2 = run_events q es (handleSendMessage q now ts message fileId s);
              s3 = settle q now' ts' c out s2
          in messages s3 = messages s2 \<and> storage s3 = storage s2 \<and> timers s3 = timers s2)
       \<and> (let s2 = run_events q es (handleNewChat q s);
              s3 = settle q now' ts' c out s2
          in messages s3 = messages s2 \<and> storage s3 = storage s2 \<and> timers s3 = timers s2)"
proof -
  have "c \<in> aborted (run_events q es (handleSendMessage q now ts message fileId s))"
    using assms by (intro run_keeps_aborted stop_aborts)
  moreover have "c \<in> aborted (run_events q es (handleNewChat q s))"
    using assms by (intro run_keeps_aborted new_chat_aborts)
  ultimately show ?thesis
    by (simp add: Let_def settle_of_aborted)
qed

theorem canceled_settlement_is_discarded_witness:
  "isTyping awaiting_reply \<and> currentAbortController awaiting_reply = Some 0
   \<and> (let s2 = run_events unlimited [Fire 18 ''10:00 AM'' 0]
                 (handleSendMessage unlimited 15 ''10:00 AM'' [] None awaiting_reply);
          s3 = settle unlimited 30 ''10:01 AM'' 0 (Response ''hi'') s2
      in messages s3 = messages s2 \<and> storage s3 = storage s2 \<and> timers s3 = timers s2)
   \<and> (let s2 = run_events unlimited [Fire 18 ''10:00 AM'' 0] (handleNewChat unlimited awaiting_reply);
          s3 = settle unlimited 30 ''10:01 AM'' 0 (Response ''hi'') s2
      in messages s3 = messages s2 \<and> storage s3 = storage s2 \<and> timers s3 = timers s2)"
proof -
  have a: "isTyping awaiting_reply" by code_simp
  have b: "currentAbortController awaiting_reply = Some 0" by code_simp
  show ?thesis
    using canceled_settlement_is_discarded [OF a b, of unlimited "[Fire 18 ''10:00 AM'' 0]"
        15 "''10:00 AM''" "[]" None 30 "''10:01 AM''" "Response ''hi''"] a b
    by simp
qed

text \<open>
  C5. When a response is awaited (\<open>isTyping\<close> holds and a controller is current), a
  call of send aborts that controller and does nothing else than clear the typing state
  and the current controller: the message list, the pending network exchanges and the
  storage are unchanged, whatever the message.
\<close>

theorem send_while_active_cancels:
  assumes "isTyping s" and "currentAbortController s = Some c"
  shows "(let s' = handleSendMessage q now ts message fileId s
          in s' = s\<lparr>isTyping := False, currentAbortController := None,
                     aborted := insert c (aborted s)\<rparr>
             \<and> c \<in> aborted s' \<and> messages s' = messages s \<and> requests s' = requests s
             \<and> storage s' = storage s \<and> \<not> isTyping s' \<and> currentAbortController s' = None)"
  using assms by (simp add: handleSendMessage_def abort_def)

theorem send_while_active_cancels_witness:
  "isTyping awaiting_reply \<and> currentAbortController awaiting_reply = Some 0
   \<and> (let s' = handleSendMessage unlimited 20 ''10:01 AM'' ''again'' None awaiting_reply
       in s' = awaiting_reply\<lparr>isTyping := False, currentAbortController := None,
                     aborted := insert 0 (aborted awaiting_reply)\<rparr>
          \<and> 0 \<in> aborted s' \<and> messages s' = messages awaiting_reply
          \<and> requests s' = requests awaiting_reply
          \<and> storage s' = storage awaiting_reply \<and> \<not> isTyping s'
          \<and> currentAbortController s' = None)"
proof -
  have a: "isTyping awaiting_reply" by code_simp
  have b: "currentAbortController awaiting_reply = Some 0" by code_simp
  show ?thesis
    using send_while_active_cancels [OF a b, of unlimited 20 "''10:01 AM''" "''again''" None] a b
    by simp
qed

text \<open>
  C10. When no response is awaited, a call of send with a message that is empty or made
  of white space only returns the state as it was: messages, typing state, abort
  controller, pending exchanges, timers and storage.
\<close>

theorem blank_send_is_noop:
  assumes "\<forall>c \<in> set message. is_space c" and "\<not> isTyping s"
  shows "handleSendMessage q now ts message fileId s = s"
  using assms
  by (simp add: handleSendMessage_def trim_empty_iff split: option.splits bool.splits)

theorem blank_send_is_noop_witness:
  "list_all is_space ''  '' \<and> \<not> isTyping idle_chat_area
   \<and> handleSendMessage unlimited 10 ''10:00 AM'' ''  '' None idle_chat_area = idle_chat_area"
proof -
  have a: "\<forall>c \<in> set ''  ''. is_space c" by (simp add: is_space_def)
  have b: "\<not> isTyping idle_chat_area" by (simp add: idle_chat_area_def)
  show ?thesis
    using blank_send_is_noop [OF a b, of unlimited 10 "''10:00 AM''" None] a b
    by (simp add: list_all_iff)
qed

section \<open>Properties of the conversation store\<close>

lemma run_events_snoc: "run_events q (es @ [e]) s = step q e (run_events q es s)"
  by (induction es arbitrary: s) simp_all

lemma messages_after_adds: "messages (run_events q (map Add ms) s) = messages s @ ms"
  by (induction ms arbitrary: s) (simp_all add: addMessage_def setMessages_def Let_def)

lemma save_messages_accepted:
  "q st (HistoryPayload (slice_last 10 (filteredMessages ms))) \<Longrightarrow>
   chat_history (save_messages q ms st) = Some (slice_last 10 (filteredMessages ms))"
  by (simp add: save_messages_def setItem_def)

lemma slice_last_filtered:
  "slice_last n (filteredMessages ms) = filteredMessages (slice_last n ms)"
  by (simp add: slice_last_def filteredMessages_def drop_map)

lemma filtered_ids: "map msg_id (filteredMessages ms) = map msg_id ms"
  by (simp add: filteredMessages_def)

text \<open>
  C4. Messages are appended to the active session one after the other. When the storage
  layer accepts the write that follows the last append, the persisted list is the last ten
  messages of the session, oldest first (all of them when there are fewer than ten), each
  with its content filtered for storage; after fifteen appends to an empty session these
  are the last ten.
\<close>

theorem persisted_history_is_last_ten:
  assumes "q (storage (run_events q (map Add ms) s))
             (HistoryPayload (slice_last 10 (filteredMessages (messages s @ ms @ [m]))))"
  shows "(let every = messages s @ ms @ [m];
              s' = run_events q (map Add (ms @ [m])) s;
              kept = drop (length every - 10) every
          in messages s' = every
             \<and> chat_history (storage s') = Some (filteredMessages kept)
             \<and> length kept = min 10 (length every)
             \<and> map msg_id (filteredMessages kept) = map msg_id kept
             \<and> (length every = 15 \<longrightarrow> chat_history (storage s') = Some (filteredMessages (drop 5 every))))"
proof -
  define every where "every = messages s @ ms @ [m]"
  define s' where "s' = run_events q (map Add (ms @ [m])) s"
  let ?s1 = "run_events q (map Add ms) s"
  have m1: "messages ?s1 = messages s @ ms" by (rule messages_after_adds)
  have st: "storage s' = save_messages q every (storage ?s1)"
    by (simp add: s'_def every_def run_events_snoc addMessage_def setMessages_def m1 Let_def)
  have "chat_history (storage s') = Some (slice_last 10 (filteredMessages every))"
    unfolding st using assms unfolding every_def by (rule save_messages_accepted)
  then have ch: "chat_history (storage s') = Some (filteredMessages (drop (length every - 10) every))"
    by (simp only: slice_last_filtered) (simp only: slice_last_def)
  have ms: "messages s' = every"
    using messages_after_adds [of q "ms @ [m]" s] by (simp add: s'_def every_def)
  have "messages s' = every
        \<and> chat_history (storage s') = Some (filteredMessages (drop (length every - 10) every))
        \<and> length (drop (length every - 10) every) = min 10 (length every)
        \<and> map msg_id (filteredMessages (drop (length every - 10) every))
            = map msg_id (drop (length every - 10) every)
        \<and> (length every = 15 \<longrightarrow> chat_history (storage s') = Some (filteredMessages (drop 5 every)))"
    using ch ms by (auto simp: filtered_ids min_def)
  then show ?thesis
    unfolding Let_def every_def s'_def .
qed

theorem persisted_history_is_last_ten_witness:
  "unlimited (storage (run_events unlimited (map Add (map numbered [1 ..< 15])) idle_chat_area))
     (HistoryPayload (slice_last 10 (filteredMessages
        (messages idle_chat_area @ map numbered [1 ..< 15] @ [numbered 15]))))
   \<and> chat_history (storage (run_events unlimited
         (map Add (map numbered [1 ..< 15] @ [numbered 15])) idle_chat_area))
       = Some (map numbered [6 ..< 16])"
proof -
  let ?every = "messages idle_chat_area @ map numbered [1 ..< 15] @ [numbered 15]"
  have h: "unlimited (storage (run_events unlimited (map Add (map numbered [1 ..< 15])) idle_chat_area))
     (HistoryPayload (slice_last 10 (filteredMessages ?every)))"
    by (simp add: unlimited_def)
  have len: "length ?every = 15" by (simp add: idle_chat_area_def)
  have "length ?every = 15 \<longrightarrow>
        chat_history (storage (run_events unlimited
           (map Add (map numbered [1 ..< 15] @ [numbered 15])) idle_chat_area))
         = Some (filteredMessages (drop 5 ?every))"
    using persisted_history_is_last_ten
            [of unlimited "map numbered [1 ..< 15]" idle_chat_area "numbered 15", OF h]
    unfolding Let_def by blast
  with len have a: "chat_history (storage (run_events unlimited
           (map Add (map numbered [1 ..< 15] @ [numbered 15])) idle_chat_area))
         = Some (filteredMessages (drop 5 ?every))" by blast
  have b: "filteredMessages (drop 5 ?every) = map numbered [6 ..< 16]" by code_simp
  show ?thesis using h a b by simp
qed

text \<open>
  C2. Evaluation at an assistant reply that carries an inline JPEG payload. The chat
  area's filter looks for PNG payloads only and the sidebar's filter, which accepts any
  image format, applies to messages of type \<open>ai\<close> only, which the chat area never
  produces. Both persisted copies keep the payload.
\<close>

theorem jpeg_payload_is_persisted:
  "chat_history (storage replied) = Some [hello_message, jpeg_message]
   \<and> chat_sessions (sb_storage polled_sidebar)
       = Some [\<lparr>session_id = ''session-1'', title = ''hello'', session_messages = [hello_message, jpeg_message]\<rparr>]
   \<and> includes_str ''data:image/jpeg;base64,/9j/4AAQSkZJRg=='' (content jpeg_message)"
  by code_simp

text \<open>
  C8. Evaluation at a session whose first user message is \<open>hello\<close> and which the user
  renamed to \<open>Sales review\<close>: the rename is stored, and the next poll of the sidebar
  computes the title again from the first user message and overwrites the rename.
\<close>

theorem poll_overwrites_rename:
  "map title (chatHistory renamed_sidebar) = [''Sales review'']
   \<and> chat_sessions (sb_storage renamed_sidebar) = Some (chatHistory renamed_sidebar)
   \<and> map title (chatHistory (state_after (checkForNewMessages unlimited 70 renamed_sidebar))) = [''hello'']"
  by code_simp






text \<open>
  In the chat history hook a title other than the placeholder survives every append, and
  so does a rename: the recomputation is guarded by \<open>title === 'New Chat'\<close>.
\<close>

lemma addMessageToChat_keeps_title:
  assumes "\<forall>c \<in> set chats. chat_title c \<noteq> ''New Chat''"
  shows "map chat_title (addMessageToChat now chatId msg chats) = map chat_title chats"
  using assms by (simp add: addMessageToChat_def Let_def)

section \<open>Properties of the upload classifier\<close>

lemma prototype_keys_unregistered:
  "k \<in> set object_prototype_keys \<Longrightarrow>
   map_of mime_registry k = None \<and> map_of FILE_SIZE_LIMITS k = None"
proof -
  have "list_all (\<lambda>k. map_of mime_registry k = None \<and> map_of FILE_SIZE_LIMITS k = None)
          object_prototype_keys"
    by (simp add: object_prototype_keys_def mime_registry_def FILE_SIZE_LIMITS_def
          structured_data_def documents_def images_def)
  then show "k \<in> set object_prototype_keys \<Longrightarrow>
     map_of mime_registry k = None \<and> map_of FILE_SIZE_LIMITS k = None"
    by (simp add: list_all_iff)
qed

lemma lookup_by_mime_registry:
  "lookup_by_mime SUPPORTED_FORMATS t =
     (case map_of mime_registry t of
        Some e \<Rightarrow> Own e
      | None \<Rightarrow> if t \<in> set object_prototype_keys then Inherited else Missing)"
proof (cases "t \<in> set object_prototype_keys")
  case True
  then have "map_of mime_registry t = None" by (simp add: prototype_keys_unregistered)
  then have "map_of structured_data t = None \<and> map_of documents t = None \<and> map_of images t = None"
    by (auto simp: mime_registry_def map_add_def split: option.splits)
  with True show ?thesis
    by (simp add: SUPPORTED_FORMATS_def mime_registry_def get_prop_def map_add_def)
next
  case False
  then show ?thesis
    by (simp add: SUPPORTED_FORMATS_def mime_registry_def get_prop_def map_add_def
           split: option.splits)
qed



lemma allowed_mime_types: "set ALLOWED_MIME_TYPES = fst ` set mime_registry"
  by (simp add: ALLOWED_MIME_TYPES_def SUPPORTED_FORMATS_def mime_registry_def image_Un Un_assoc)

lemma allowed_extensions: "set ALLOWED_EXTENSIONS = fst ` set by_extension"
  by (simp add: ALLOWED_EXTENSIONS_def SUPPORTED_FORMATS_def)

lemma extension_not_inherited: "extension_of f \<notin> set object_prototype_keys"
  by (auto simp: extension_of_def object_prototype_keys_def split: list.splits)


lemma getFileInfo_resolution:
  "getFileInfo f =
     (case map_of mime_registry (file_type f) of
        Some e \<Rightarrow> Own e
      | None \<Rightarrow>
          if file_type f \<in> set object_prototype_keys then Inherited
          else (case map_of by_extension (extension_of f) of
                  Some e \<Rightarrow> Own e
                | None \<Rightarrow> Missing))"
  using extension_not_inherited [of f]
  by (simp add: getFileInfo_def lookup_by_mime_registry get_prop_def split: option.splits)

lemma unsupported_guard:
  "(getFileInfo f = Missing \<and> file_type f \<notin> set ALLOWED_MIME_TYPES
      \<and> extension_of f \<notin> set ALLOWED_EXTENSIONS)
   \<longleftrightarrow> getFileInfo f = Missing"
  by (auto simp: getFileInfo_resolution allowed_mime_types allowed_extensions
        map_of_eq_None_iff [symmetric] split: option.splits if_splits)



lemma extension_of_size: "extension_of (f\<lparr>file_size := n\<rparr>) = extension_of f"
  by (simp add: extension_of_def)

lemma getFileInfo_size [simp]: "getFileInfo (f\<lparr>file_size := n\<rparr>) = getFileInfo f"
  by (simp add: getFileInfo_def extension_of_size split: lookup.splits)





lemma every_mime_entry_resolves:
  assumes "(k, e) \<in> set mime_registry" and "file_type f = k"
  shows "getFileInfo f = Own e"
proof -
  have "distinct (map fst mime_registry)"
    by (simp add: mime_registry_def structured_data_def documents_def images_def)
  with assms show ?thesis by (simp add: getFileInfo_resolution)
qed

lemma every_extension_entry_resolves:
  assumes "(k, e) \<in> set by_extension" and "extension_of f = k"
    and "lookup_by_mime SUPPORTED_FORMATS (file_type f) = Missing"
  shows "getFileInfo f = Own e"
proof -
  have "distinct (map fst by_extension)" by (simp add: by_extension_def)
  with assms show ?thesis by (simp add: getFileInfo_def get_prop_def)
qed





lemma unsupported_iff: "validateFile f = Some UnsupportedFormat \<longleftrightarrow> getFileInfo f = Missing"
  using unsupported_guard [of f]
  by (auto simp: validateFile_def Let_def split: size_limit.splits if_splits)

text \<open>
  C9. For a MIME type that is not the name of a property inherited from
  \<open>Object.prototype\<close> (no MIME type a browser reports is one): an entry keyed by the
  MIME type is the resolution, whatever the file name; without one, the resolution is the
  entry keyed by the extension, if any; the file is refused as unsupported exactly when
  neither exists. The message of that failure names the six categories with examples and
  does not list every registered extension.
\<close>

theorem mime_type_before_extension:
  assumes "file_type f \<notin> set object_prototype_keys"
  shows "(case map_of mime_registry (file_type f) of
            Some e \<Rightarrow> getFileInfo f = Own e
          | None \<Rightarrow>
              getFileInfo f = (case map_of by_extension (extension_of f) of
                                 Some e \<Rightarrow> Own e
                               | None \<Rightarrow> Missing))
       \<and> (validateFile f = Some UnsupportedFormat \<longleftrightarrow>
            map_of mime_registry (file_type f) = None
            \<and> map_of by_extension (extension_of f) = None)
       \<and> list_all (\<lambda>c. includes_str c (message_of UnsupportedFormat))
            [''**Data:**'', ''**Documents:**'', ''**Images with OCR:**'', ''**Statistical:**'',
             ''**Databases:**'', ''**Models:**'']
       \<and> \<not> list_all (\<lambda>x. includes_str x (message_of UnsupportedFormat)) ALLOWED_EXTENSIONS"
proof -
  have a: "list_all (\<lambda>c. includes_str c (message_of UnsupportedFormat))
            [''**Data:**'', ''**Documents:**'', ''**Images with OCR:**'', ''**Statistical:**'',
             ''**Databases:**'', ''**Models:**'']"
    by code_simp
  have b: "\<not> list_all (\<lambda>x. includes_str x (message_of UnsupportedFormat)) ALLOWED_EXTENSIONS"
    by code_simp
  show ?thesis
    using assms a b
    by (auto simp: unsupported_iff getFileInfo_resolution split: option.splits)
qed

theorem mime_type_before_extension_witness:
  "file_type installer \<notin> set object_prototype_keys
   \<and> validateFile installer = Some UnsupportedFormat
   \<and> getFileInfo csv_named_pkl = Own (by_mime ''.csv'' ''CSV Files'' 1)
   \<and> getFileInfo pickle_upper = Own (by_ext ''Pickle Files'' 3)"
proof -
  have p1: "file_type installer \<notin> set object_prototype_keys"
    and p2: "file_type csv_named_pkl \<notin> set object_prototype_keys"
    and p3: "file_type pickle_upper \<notin> set object_prototype_keys"
    by (simp_all add: installer_def csv_named_pkl_def pickle_upper_def object_prototype_keys_def)
  have l: "toLowerCase ''PKL'' = ''pkl''" "toLowerCase ''exe'' = ''exe''" by code_simp+
  have e1: "extension_of installer = ''.exe''" and e3: "extension_of pickle_upper = ''.pkl''"
    by (simp_all add: extension_of_def installer_def pickle_upper_def l)
  have m1: "map_of mime_registry (file_type installer) = None"
    and m2: "map_of mime_registry (file_type csv_named_pkl) = Some (by_mime ''.csv'' ''CSV Files'' 1)"
    and m3: "map_of mime_registry (file_type pickle_upper) = None"
    by (simp_all add: mime_registry_def structured_data_def documents_def images_def
          installer_def csv_named_pkl_def pickle_upper_def)
  have x1: "map_of by_extension ''.exe'' = None"
    and x3: "map_of by_extension ''.pkl'' = Some (by_ext ''Pickle Files'' 3)"
    by (simp_all add: by_extension_def)
  show ?thesis
    using mime_type_before_extension [OF p1] mime_type_before_extension [OF p2]
      mime_type_before_extension [OF p3] p1
    by (simp add: e1 e3 m1 m2 m3 x1 x3)
qed

section \<open>Properties of the content parser\<close>

lemma text_part_empty: "text_part [] = []"
  by (simp add: text_part_def trim_def)

lemma chart_of_image_block: "chart_of body = image_block body"
  by (simp add: chart_of_def image_block_def Let_def map_option_case split: option.splits)

lemma html_parts_expected:
  "html_parts reply lastIndex = expected_parts reply lastIndex (wrappers reply lastIndex)"
proof (induction reply lastIndex rule: html_parts.induct)
  case (1 reply lastIndex)
  show ?case
  proof (cases "rx_exec htmlDivRegex reply lastIndex")
    case None
    then show ?thesis
      by (simp add: html_parts.simps [of reply lastIndex] wrappers.simps [of reply lastIndex]
            text_part_empty)
  next
    case (Some m)
    from "1.IH" [OF Some]
    have "html_parts reply (m_index m + m_length m) =
        expected_parts reply (m_index m + m_length m) (wrappers reply (m_index m + m_length m))" .
    with Some show ?thesis
      by (simp add: html_parts.simps [of reply lastIndex] wrappers.simps [of reply lastIndex]
            chart_of_image_block text_part_empty)
  qed
qed

lemma no_image_in_text_part: "filter is_image_block (text_part t) = []"
  by (simp add: text_part_def)

lemma image_block_count:
  "length (filter is_image_block (image_block body)) =
     (if rx_exec imageRegex body 0 \<noteq> None \<and> rx_exec downloadLinkRegex body 0 \<noteq> None
      then 1 else 0)"
  by (simp add: image_block_def split: option.splits)

lemma expected_parts_count:
  "length (filter is_image_block (expected_parts reply pos ms)) = length (filter has_image_and_link ms)"
  by (induction ms arbitrary: pos)
     (simp_all add: no_image_in_text_part image_block_count has_image_and_link_def)

text \<open>
  C7, as stated, fails: a wrapper that holds a title and an image but no download link
  yields no image part at all; the whole reply comes back as one text part.
\<close>

theorem wrapper_without_link_counterexample:
  "includes_str wrapper_signature chart_without_link
   \<and> AIMessage chart_without_link = HtmlParts [TextBlock chart_without_link]"
  by code_simp

text \<open>
  C7, amended. For a reply that contains the wrapper signature, the parts are those of
  \<open>expected_parts\<close> over all wrappers of the reply, or the whole reply as one text part
  when there are none: for every wrapper, in order, the prose before it (when not blank)
  and one image block if its markup holds both an image tag and a download link, no block
  otherwise; then the prose after the last wrapper (when not blank). The image block
  carries the link's address and file name, the title if a heading is present, and the
  image's source and alternative text. There are as many image blocks as wrappers with
  both an image tag and a download link.
\<close>

theorem wrapper_needs_image_and_link:
  assumes "includes_str wrapper_signature reply"
  shows "(let ws = wrappers reply 0;
              parts = expected_parts reply 0 ws
          in AIMessage reply = HtmlParts (if parts \<noteq> [] then parts else [TextBlock reply])
             \<and> length (filter is_image_block parts) = length (filter has_image_and_link ws)
             \<and> (\<forall>body im dl.
                   rx_exec imageRegex body 0 = Some im \<longrightarrow>
                   rx_exec downloadLinkRegex body 0 = Some dl \<longrightarrow>
                   image_block body =
                     [ChartBlock (group dl 1) (group dl 2)
                        (map_option (\<lambda>t. group t 1) (rx_exec titleRegex body 0))
                        (group im 1) (group im 2)])
             \<and> (\<forall>body.
                   rx_exec imageRegex body 0 = None \<or> rx_exec downloadLinkRegex body 0 = None \<longrightarrow>
                   image_block body = []))"
proof -
  have a: "AIMessage reply =
      HtmlParts (if expected_parts reply 0 (wrappers reply 0) \<noteq> []
                 then expected_parts reply 0 (wrappers reply 0) else [TextBlock reply])"
    using assms
    by (simp add: AIMessage_def parseHTMLContent_def Let_def html_parts_expected)
  have b: "image_block body =
      [ChartBlock (group dl 1) (group dl 2)
         (map_option (\<lambda>t. group t 1) (rx_exec titleRegex body 0)) (group im 1) (group im 2)]"
    if "rx_exec imageRegex body 0 = Some im" and "rx_exec downloadLinkRegex body 0 = Some dl"
    for body im dl
    using that by (cases "rx_exec titleRegex body 0") (simp_all add: image_block_def)
  have c: "image_block body = []"
    if "rx_exec imageRegex body 0 = None \<or> rx_exec downloadLinkRegex body 0 = None" for body
    using that by (auto simp: image_block_def split: option.splits)
  from a b c expected_parts_count [of reply 0 "wrappers reply 0"] show ?thesis
    unfolding Let_def by blast
qed

theorem wrapper_needs_image_and_link_witness:
  "includes_str wrapper_signature three_wrappers
   \<and> length (wrappers three_wrappers 0) = 3
   \<and> AIMessage three_wrappers =
       HtmlParts [TextBlock ''A'',
                  ChartBlock ''/a.png'' ''a.png'' None ''/a.png'' ''First'',
                  TextBlock ''B'',
                  TextBlock ''C'',
                  ChartBlock ''/c.png'' ''c.png'' (Some ''Third'') ''/c.png'' ''Third chart'',
                  TextBlock ''D'']"
proof -
  have h: "includes_str wrapper_signature three_wrappers" by code_simp
  have n: "length (wrappers three_wrappers 0) = 3" by code_simp
  have e: "expected_parts three_wrappers 0 (wrappers three_wrappers 0) =
      [TextBlock ''A'',
       ChartBlock ''/a.png'' ''a.png'' None ''/a.png'' ''First'',
       TextBlock ''B'',
       TextBlock ''C'',
       ChartBlock ''/c.png'' ''c.png'' (Some ''Third'') ''/c.png'' ''Third chart'',
       TextBlock ''D'']"
    by code_simp
  have "AIMessage three_wrappers =
      HtmlParts (if expected_parts three_wrappers 0 (wrappers three_wrappers 0) \<noteq> []
                 then expected_parts three_wrappers 0 (wrappers three_wrappers 0)
                 else [TextBlock three_wrappers])"
    using wrapper_needs_image_and_link [OF h] unfolding Let_def by blast
  with h n show ?thesis unfolding e by simp
qed

end
